theory Spec2Isabelle
  imports Complex_Main "HOL-Library.Multiset"
begin

unbundle bit_operations_syntax

chapter \<open>SumTrees: split support summarization (DendroPy)\<close>

text \<open>
  A shallow embedding of \<^verbatim>\<open>applications/sumtrees/sumtrees.py\<close> and of the assertions of
  \<^verbatim>\<open>dendropy/test/test_datamodel_split_bitmasks.py\<close>. The library modules
  \<^verbatim>\<open>dendropy.calculate.treesplit\<close> and \<^verbatim>\<open>dendropy.calculate.treesum\<close> are not among
  the sources; what the driver needs of them is modelled from the specification and marked
  as such. Python integers are \<open>int\<close> or \<open>nat\<close>, Python floats are the exact rational
  value of the double (or an infinity or NaN), \<^verbatim>\<open>sys.exit\<close> and uncaught exceptions are
  values of an outcome type.
\<close>

section \<open>Python values\<close>

text \<open>A Python float: the exact value of a finite double, or one of the special values.
  Comparisons of doubles are exact, so they are the comparisons of these values; every
  comparison with NaN is false.\<close>

datatype pyfloat = Finite rat | PosInf | NegInf | NaN

fun float_gt :: "pyfloat \<Rightarrow> pyfloat \<Rightarrow> bool" where
  "float_gt NaN _ = False"
| "float_gt _ NaN = False"
| "float_gt (Finite a) (Finite b) = (a > b)"
| "float_gt PosInf PosInf = False"
| "float_gt PosInf _ = True"
| "float_gt NegInf _ = False"
| "float_gt (Finite a) NegInf = True"
| "float_gt (Finite a) PosInf = False"

fun float_le :: "pyfloat \<Rightarrow> pyfloat \<Rightarrow> bool" where
  "float_le NaN _ = False"
| "float_le _ NaN = False"
| "float_le a b = (\<not> float_gt a b)"

definition float_ge :: "pyfloat \<Rightarrow> pyfloat \<Rightarrow> bool" where
  "float_ge a b = float_le b a"

subsection \<open>decimal.Decimal and the conversion to float\<close>

text \<open>A positive finite \<^verbatim>\<open>Decimal\<close>: coefficient and exponent, the value being
  \<open>coefficient * 10 ^ exponent\<close>.\<close>

record decimal =
  coefficient :: nat
  exponent :: int

text \<open>The precision of Python's default decimal context.\<close>

definition default_context_prec :: nat where
  "default_context_prec = 28"

text \<open>The number of decimal digits of a coefficient (\<open>0\<close> has one digit).\<close>

fun digits :: "nat \<Rightarrow> nat" where
  "digits n = (if n < 10 then 1 else Suc (digits (n div 10)))"

declare digits.simps [simp del]

text \<open>\<^verbatim>\<open>int.bit_length()\<close> of a non-negative integer.\<close>

function bit_length :: "int \<Rightarrow> nat" where
  "bit_length n = (if n \<le> 0 then 0 else Suc (bit_length (n div 2)))"
  by pat_completeness auto
termination
  by (relation "measure nat") auto

declare bit_length.simps [simp del]

text \<open>\<^verbatim>\<open>Decimal(f)\<close> for a positive finite float \<open>f\<close>, given by its integer ratio: the
  exact conversion (\<^verbatim>\<open>n, d = f.as_integer_ratio(); k = d.bit_length() - 1\<close>, coefficient
  \<open>n * 5 ^ k\<close>, exponent \<open>- k\<close>).\<close>

definition Decimal_of_float :: "int \<times> int \<Rightarrow> decimal" where
  "Decimal_of_float f = (case f of (n, d) \<Rightarrow>
     let k = bit_length d - 1
     in \<lparr>coefficient = nat n * 5 ^ k, exponent = - int k\<rparr>)"

text \<open>\<^verbatim>\<open>Decimal.next_plus()\<close> on a positive finite number whose coefficient fits the
  precision: the smallest number representable with \<open>prec\<close> digits that is larger than
  the operand. The coefficient is padded to \<open>prec\<close> digits and incremented.\<close>

definition next_plus :: "nat \<Rightarrow> decimal \<Rightarrow> decimal" where
  "next_plus prec x =
     (let shift = prec - digits (coefficient x);
          c = coefficient x * 10 ^ shift + 1;
          e = exponent x - int shift
      in if c = 10 ^ prec then \<lparr>coefficient = 10 ^ (prec - 1), exponent = e + 1\<rparr>
         else \<lparr>coefficient = c, exponent = e\<rparr>)"

text \<open>The value of a decimal as a fraction of two positive integers.\<close>

definition decimal_fraction :: "decimal \<Rightarrow> int \<times> int" where
  "decimal_fraction x =
     (if exponent x \<ge> 0 then (int (coefficient x) * 10 ^ nat (exponent x), 1)
      else (int (coefficient x), 10 ^ nat (- exponent x)))"

text \<open>The fraction \<open>n / d\<close> multiplied by \<open>2 ^ s\<close>, for an integer \<open>s\<close> of either sign.\<close>

definition scale2 :: "int \<times> int \<Rightarrow> int \<Rightarrow> int \<times> int" where
  "scale2 f s = (case f of (n, d) \<Rightarrow>
     if s \<ge> 0 then (n * 2 ^ nat s, d) else (n, d * 2 ^ nat (- s)))"

text \<open>Rounding a non-negative fraction to the nearest integer, ties to even.\<close>

definition round_half_even :: "int \<times> int \<Rightarrow> int" where
  "round_half_even f = (case f of (a, b) \<Rightarrow>
     let q = a div b; r = a mod b
     in if 2 * r < b then q
        else if 2 * r > b then q + 1
        else if even q then q else q + 1)"

text \<open>The binary exponent of a positive fraction: the \<open>E\<close> with \<open>2 ^ E \<le> n / d < 2 ^ (E + 1)\<close>.\<close>

definition binary_exponent :: "int \<times> int \<Rightarrow> int" where
  "binary_exponent f = (case f of (n, d) \<Rightarrow>
     let e0 = int (bit_length n) - int (bit_length d)
     in case scale2 (n, d) (- e0) of (n', d') \<Rightarrow> if n' \<ge> d' then e0 else e0 - 1)"

text \<open>\<^verbatim>\<open>float(x)\<close> for a positive decimal: the nearest double, ties to even (IEEE 754
  binary64, 53 bits of mantissa). Overflow and subnormal results are outside the model;
  the values converted here lie in \<open>[1/2, 1)\<close>.\<close>

definition float_of_decimal :: "decimal \<Rightarrow> pyfloat" where
  "float_of_decimal x =
     (let f = decimal_fraction x;
          E = binary_exponent f;
          m = round_half_even (scale2 f (52 - E))
      in Finite (if E \<ge> 52 then of_int (m * 2 ^ nat (E - 52))
                 else of_int m / of_int (2 ^ nat (52 - E))))"

text \<open>Line 71: \<^verbatim>\<open>GREATER_THAN_50_PERCENT = float(Decimal(0.5).next_plus())\<close>; the float
  \<open>0.5\<close> is the ratio \<open>1 / 2\<close>.\<close>

definition GREATER_THAN_50_PERCENT :: pyfloat where
  "GREATER_THAN_50_PERCENT =
     float_of_decimal (next_plus default_context_prec (Decimal_of_float (1, 2)))"

section \<open>Trees, splits and the taxon namespace\<close>

text \<open>A taxon namespace is the ordered list of its taxon labels; the bit index of a
  taxon is its position.\<close>

type_synonym taxon_namespace = "string list"

text \<open>Modelled from the spec: \<^verbatim>\<open>dendropy.TaxonNamespace\<close> is missing. \<section>4.1:
  \<^verbatim>\<open>register(label) -> bit_index\<close> is idempotent per label, each taxon has a fixed bit
  index assigned at first registration; the constructor registers the given labels in
  order.\<close>

definition register :: "taxon_namespace \<Rightarrow> string \<Rightarrow> taxon_namespace" where
  "register ns label = (if label \<in> set ns then ns else ns @ [label])"

definition TaxonNamespace :: "string list \<Rightarrow> taxon_namespace" where
  "TaxonNamespace labels = foldl register [] labels"

fun index_of :: "string list \<Rightarrow> string \<Rightarrow> nat option" where
  "index_of [] label = None"
| "index_of (x # xs) label =
     (if x = label then Some 0 else map_option Suc (index_of xs label))"

definition bit_index :: "taxon_namespace \<Rightarrow> string \<Rightarrow> nat option" where
  "bit_index ns label = index_of ns label"

definition all_taxa_bitmask :: "taxon_namespace \<Rightarrow> nat" where
  "all_taxa_bitmask ns = 2 ^ length ns - 1"

text \<open>An edge of a parsed tree, with the split bitmask the Split Codec computes for it
  (\<section>4.2), its length and the age of the node it subtends.\<close>

record edge =
  split_bitmask :: nat
  is_root_edge :: bool
  edge_length :: "rat option"
  node_age :: "rat option"

text \<open>A parsed tree: \<^verbatim>\<open>tree.taxon_namespace\<close>, \<^verbatim>\<open>tree.is_rooted\<close> (\<^verbatim>\<open>True\<close>,
  \<^verbatim>\<open>False\<close> or \<^verbatim>\<open>None\<close>), \<^verbatim>\<open>tree.weight\<close> (\<^verbatim>\<open>None\<close> unless weights are
  stored) and its edges. The split bitmasks of the edges are taken over the namespace of
  the tree.\<close>

record tree =
  tree_taxon_namespace :: taxon_namespace
  is_rooted :: "bool option"
  weight :: "rat option"
  edges :: "edge list"

text \<open>The number of set bits of a bitmask (\<^verbatim>\<open>treesplit.count_bits\<close>; the test
  \<^verbatim>\<open>CountBitsTest\<close> expects \<^verbatim>\<open>count_bits(21) == 3\<close>).\<close>

fun count_bits :: "nat \<Rightarrow> nat" where
  "count_bits n = (if n = 0 then 0 else n mod 2 + count_bits (n div 2))"

declare count_bits.simps [simp del]

text \<open>The taxa of a mask on the two sides of a split: how many of them the split holds
  and how many it leaves out, bit by bit.\<close>

fun split_sides :: "nat \<Rightarrow> nat \<Rightarrow> nat \<times> nat" where
  "split_sides s taxa_mask =
     (if taxa_mask = 0 then (0, 0)
      else case split_sides (s div 2) (taxa_mask div 2) of
        (inside, outside) \<Rightarrow>
          if even taxa_mask then (inside, outside)
          else if odd s then (inside + 1, outside)
          else (inside, outside + 1))"

declare split_sides.simps [simp del]

text \<open>Modelled from the spec: \<^verbatim>\<open>treesplit.is_trivial_split\<close> is missing. The glossary:
  a trivial split isolates a single taxon (or all but one) and carries no branching
  information; \<section>4.2: the taxa are those that \<^verbatim>\<open>full_mask\<close> implies (pruned or partial
  leaf sets). So the split is trivial when one of its two sides holds at most one taxon of
  the mask. A side that holds none is trivial as well: the assertions of
  \<^verbatim>\<open>IsTrivialTest\<close> expect \<^verbatim>\<open>is_trivial_split(0, 0xF)\<close> and
  \<^verbatim>\<open>is_trivial_split(15, 0xF)\<close> to be true.\<close>

definition is_trivial_split :: "nat \<Rightarrow> nat \<Rightarrow> bool" where
  "is_trivial_split s taxa_mask =
     (case split_sides s taxa_mask of (inside, outside) \<Rightarrow> inside \<le> 1 \<or> outside \<le> 1)"

text \<open>Modelled from the spec: the normalization of \<section>3 is missing from the sources:
  the canonical form of a split is \<^verbatim>\<open>min(mask, full_mask XOR mask)\<close>.\<close>

definition normalize_split :: "nat \<Rightarrow> nat \<Rightarrow> nat" where
  "normalize_split s full_mask = min s (full_mask XOR s)"

subsection \<open>The tree reader\<close>

text \<open>The trees of a source file are given as a reader with a fresh namespace delivers
  them: the namespace of such a tree lists the taxa of its statement in the order in which
  they appear. A reader that is given a namespace delivers the same tree on that namespace.

  Modelled from the spec: the reader (\<^verbatim>\<open>dendropy.Tree.yield_from_files\<close>) is missing.
  \<section>6: it delivers parsed trees with their taxa mapped onto the namespace it is given;
  \<section>4.1: a taxon met for the first time is registered and gets the next bit index
  (nothing in the driver locks a namespace); \<section>4.2: the bitmask of an edge is the bitwise
  OR of the bits of its taxa.\<close>

definition reindex_split :: "taxon_namespace \<Rightarrow> taxon_namespace \<Rightarrow> nat \<Rightarrow> nat" where
  "reindex_split own ns s =
     foldl (OR) 0
       (map (\<lambda>i. case bit_index ns (own ! i) of Some j \<Rightarrow> 2 ^ j | None \<Rightarrow> 0)
          (filter (\<lambda>i. odd (s div 2 ^ i)) [0 ..< length own]))"

definition read_tree :: "taxon_namespace \<Rightarrow> tree \<Rightarrow> taxon_namespace \<times> tree" where
  "read_tree ns t =
     (let ns' = foldl register ns (tree_taxon_namespace t)
      in (ns',
          t\<lparr>tree_taxon_namespace := ns',
            edges := map (\<lambda>e. e\<lparr>split_bitmask :=
                                   reindex_split (tree_taxon_namespace t) ns' (split_bitmask e)\<rparr>)
                       (edges t)\<rparr>))"

section \<open>The assertions of IsTrivialTest\<close>

text \<open>Lines 319-330 of the test module: for \<open>i = 0, ..., 31\<close> the expected value of
  \<^verbatim>\<open>treesplit.is_trivial_split(i, mask)\<close>, for the masks \<^verbatim>\<open>0xF\<close>, \<^verbatim>\<open>0x1F\<close> and
  \<^verbatim>\<open>0x17\<close> (\<open>y = True\<close>, \<open>n = False\<close>).\<close>

definition IsTrivialTest_0xF :: "bool list" where
  "IsTrivialTest_0xF = (let y = True; n = False in
     [y, y, y, n, y, n, n, y, y, n, n, y, n, y, y, y,
      y, y, y, n, y, n, n, y, y, n, n, y, n, y, y, y])"

definition IsTrivialTest_0x1F :: "bool list" where
  "IsTrivialTest_0x1F = (let y = True; n = False in
     [y, y, y, n, y, n, n, n, y, n, n, n, n, n, n, y,
      y, n, n, n, n, n, n, y, n, n, n, y, n, y, y, y])"

definition IsTrivialTest_0x17 :: "bool list" where
  "IsTrivialTest_0x17 = (let y = True; n = False in
     [y, y, y, n, y, n, n, y, y, y, y, n, y, n, n, y,
      y, n, n, y, n, y, y, y, y, n, n, y, n, y, y, y])"

text \<open>The splits the test enumerates, \<^verbatim>\<open>enumerate([...])\<close> over 32 entries.\<close>

definition IsTrivialTest_splits :: "nat list" where
  "IsTrivialTest_splits = [0 ..< 32]"

text \<open>The formula of \<section>4.2 in the words of the specification:
  \<^verbatim>\<open>is_trivial(split, full_mask)\<close> is true iff
  \<^verbatim>\<open>popcount(split) == 1 or popcount(split) == popcount(full_mask) - 1\<close>.\<close>

definition is_trivial :: "nat \<Rightarrow> nat \<Rightarrow> bool" where
  "is_trivial s full_mask =
     (count_bits s = 1 \<or> int (count_bits s) = int (count_bits full_mask) - 1)"

section \<open>Consensus threshold\<close>

text \<open>Modelled from the spec: \<^verbatim>\<open>treesum.TreeSummarizer.tree_from_splits\<close> is missing.
  \<section>4.5, step 3: a split enters the consensus tree when its frequency is at least
  \<^verbatim>\<open>min_freq\<close>.\<close>

definition clears_min_freq :: "pyfloat \<Rightarrow> pyfloat \<Rightarrow> bool" where
  "clears_min_freq freq min_freq = float_ge freq min_freq"

section \<open>The split distribution and the topology counter\<close>

text \<open>Modelled from the spec: \<^verbatim>\<open>treesplit.SplitDistribution\<close> is missing. \<section>3: a mapping
  from split to its occurrence count (a sum of tree weights), the edge lengths and the node
  ages observed for it; the total of trees counted, the total tree weight and the set of
  rooting types seen. The field names are those the driver and the test module use;
  \<^verbatim>\<open>tree_rooting_types_counted\<close> holds values of \<^verbatim>\<open>tree.is_rooted\<close>. Counts and weights
  are exact rationals: the rounding of float addition is outside the model.\<close>

record split_distribution =
  sd_taxon_namespace :: taxon_namespace
  ignore_edge_lengths :: bool
  ignore_node_ages :: bool
  ignore_tree_weights :: bool
  split_counts :: "nat \<rightharpoonup> rat"
  split_edge_lengths :: "nat \<rightharpoonup> rat option list"
  split_node_ages :: "nat \<rightharpoonup> rat option list"
  total_trees_counted :: nat
  sum_of_tree_weights :: rat
  tree_rooting_types_counted :: "bool option set"

text \<open>\<^verbatim>\<open>treesplit.SplitDistribution(taxon_namespace=...)\<close>: nothing counted yet.\<close>

definition SplitDistribution :: "taxon_namespace \<Rightarrow> split_distribution" where
  "SplitDistribution ns =
     \<lparr>sd_taxon_namespace = ns,
      ignore_edge_lengths = False,
      ignore_node_ages = False,
      ignore_tree_weights = False,
      split_counts = Map.empty,
      split_edge_lengths = Map.empty,
      split_node_ages = Map.empty,
      total_trees_counted = 0,
      sum_of_tree_weights = 0,
      tree_rooting_types_counted = {}\<rparr>"

text \<open>Reading a dictionary of counts or of sample lists with the default of a
  \<^verbatim>\<open>defaultdict\<close>.\<close>

definition count_of :: "('k \<rightharpoonup> rat) \<Rightarrow> 'k \<Rightarrow> rat" where
  "count_of m k = (case m k of None \<Rightarrow> 0 | Some c \<Rightarrow> c)"

definition samples_of :: "('k \<rightharpoonup> 'v list) \<Rightarrow> 'k \<Rightarrow> 'v list" where
  "samples_of m k = (case m k of None \<Rightarrow> [] | Some xs \<Rightarrow> xs)"

text \<open>\<section>4.3, step 3: the weight a tree is counted with: its own weight when weights are
  tracked and the tree carries one, \<open>1.0\<close> otherwise.\<close>

definition weight_to_use :: "split_distribution \<Rightarrow> tree \<Rightarrow> rat" where
  "weight_to_use d t =
     (case weight t of
        Some w \<Rightarrow> if ignore_tree_weights d then 1 else w
      | None \<Rightarrow> 1)"

text \<open>\<section>4.3, step 3: the key under which an edge of a tree is stored: the split itself
  for a rooted tree, its normalized form otherwise. The full mask is that of the tree's
  taxon namespace, which is the distribution's (line 148 asserts that they are the same
  object).\<close>

definition split_key :: "tree \<Rightarrow> edge \<Rightarrow> nat" where
  "split_key t e =
     (if is_rooted t = Some True then split_bitmask e
      else normalize_split (split_bitmask e) (all_taxa_bitmask (tree_taxon_namespace t)))"

text \<open>\<section>4.3, step 3: the root edge is counted only when the tree is rooted and its split
  is not trivial; every other edge is counted.\<close>

definition is_edge_counted :: "tree \<Rightarrow> edge \<Rightarrow> bool" where
  "is_edge_counted t e =
     (if is_root_edge e
      then is_rooted t = Some True
           \<and> \<not> is_trivial_split (split_bitmask e) (all_taxa_bitmask (tree_taxon_namespace t))
      else True)"

text \<open>\<section>4.3, steps 3 and 4 for one edge: the count of its split grows by the weight, the
  edge length and the node age are appended to the split's samples when they are tracked.\<close>

definition count_edge :: "tree \<Rightarrow> rat \<Rightarrow> split_distribution \<Rightarrow> edge \<Rightarrow> split_distribution" where
  "count_edge t w d e =
     (if is_edge_counted t e then
        let k = split_key t e in
        d\<lparr>split_counts := (split_counts d)(k \<mapsto> count_of (split_counts d) k + w),
          split_edge_lengths :=
            (if ignore_edge_lengths d then split_edge_lengths d
             else (split_edge_lengths d)(k \<mapsto> samples_of (split_edge_lengths d) k @ [edge_length e])),
          split_node_ages :=
            (if ignore_node_ages d then split_node_ages d
             else (split_node_ages d)(k \<mapsto> samples_of (split_node_ages d) k @ [node_age e]))\<rparr>
      else d)"

text \<open>Modelled from the spec: \<^verbatim>\<open>SplitDistribution.count_splits_on_tree\<close> is missing.
  \<section>4.3, steps 2 to 5: the rooting type of the tree is recorded, every counted edge is
  added, and the totals grow. The callers in the driver test the set of rooting types
  after the call (lines 308 and 780), so the call itself returns.\<close>

definition count_splits_on_tree :: "split_distribution \<Rightarrow> tree \<Rightarrow> split_distribution" where
  "count_splits_on_tree d t =
     (let w = weight_to_use d t;
          d1 = d\<lparr>tree_rooting_types_counted := insert (is_rooted t) (tree_rooting_types_counted d)\<rparr>;
          d2 = foldl (count_edge t w) d1 (edges t)
      in d2\<lparr>total_trees_counted := total_trees_counted d2 + 1,
            sum_of_tree_weights := sum_of_tree_weights d2 + w\<rparr>)"

text \<open>The dictionaries of two distributions combined: for every key of the second, its
  value is added to (appended to) the value the first has for it.\<close>

definition merge_counts :: "('k \<rightharpoonup> rat) \<Rightarrow> ('k \<rightharpoonup> rat) \<Rightarrow> ('k \<rightharpoonup> rat)" where
  "merge_counts a b = (\<lambda>k. case b k of None \<Rightarrow> a k | Some c \<Rightarrow> Some (count_of a k + c))"

definition merge_samples :: "('k \<rightharpoonup> 'v list) \<Rightarrow> ('k \<rightharpoonup> 'v list) \<Rightarrow> ('k \<rightharpoonup> 'v list)" where
  "merge_samples a b = (\<lambda>k. case b k of None \<Rightarrow> a k | Some xs \<Rightarrow> Some (samples_of a k @ xs))"

text \<open>Modelled from the spec: \<^verbatim>\<open>SplitDistribution.update\<close> (the \<^verbatim>\<open>merge\<close> of \<section>4.3) is
  missing: for each split key the counts are summed and the sample lists concatenated, the
  sets of rooting types are united, the totals are summed.\<close>

definition update :: "split_distribution \<Rightarrow> split_distribution \<Rightarrow> split_distribution" where
  "update d other =
     d\<lparr>split_counts := merge_counts (split_counts d) (split_counts other),
       split_edge_lengths := merge_samples (split_edge_lengths d) (split_edge_lengths other),
       split_node_ages := merge_samples (split_node_ages d) (split_node_ages other),
       total_trees_counted := total_trees_counted d + total_trees_counted other,
       sum_of_tree_weights := sum_of_tree_weights d + sum_of_tree_weights other,
       tree_rooting_types_counted :=
         tree_rooting_types_counted d \<union> tree_rooting_types_counted other\<rparr>"

text \<open>Modelled from the spec: \<^verbatim>\<open>SplitDistribution.is_mixed_rootings_counted\<close> is missing.
  \<section>4.3, step 2: the set of rooting types contains both rooted and unrooted.\<close>

definition is_mixed_rootings_counted :: "split_distribution \<Rightarrow> bool" where
  "is_mixed_rootings_counted d =
     (Some True \<in> tree_rooting_types_counted d \<and> Some False \<in> tree_rooting_types_counted d)"

text \<open>Modelled from the spec: \<^verbatim>\<open>treesum.TopologyCounter\<close> is missing. \<section>3 and \<section>4.4: the
  key of a tree is the set of its non-trivial splits in canonical form; \<^verbatim>\<open>count\<close> adds
  the weight of the tree to the count of its key, \<^verbatim>\<open>update_topology_hash_map\<close> sums
  the counts per key.\<close>

type_synonym topology_hash_map = "nat set \<rightharpoonup> rat"

definition topology_key :: "tree \<Rightarrow> nat set" where
  "topology_key t =
     set (map (split_key t)
       (filter (\<lambda>e. \<not> is_trivial_split (split_bitmask e)
                        (all_taxa_bitmask (tree_taxon_namespace t)))
          (edges t)))"

definition topology_count :: "topology_hash_map \<Rightarrow> tree \<Rightarrow> topology_hash_map" where
  "topology_count m t =
     (let k = topology_key t;
          w = (case weight t of None \<Rightarrow> 1 | Some w \<Rightarrow> w)
      in m(k \<mapsto> count_of m k + w))"

definition update_topology_hash_map :: "topology_hash_map \<Rightarrow> topology_hash_map \<Rightarrow> topology_hash_map" where
  "update_topology_hash_map m other = merge_counts m other"

section \<open>Messages, exits and exceptions\<close>

text \<open>The levels of \<^verbatim>\<open>ConsoleMessenger\<close>. Informational progress messages are not part
  of the model; warnings and errors are.\<close>

datatype level = WARNING | ERROR

text \<open>How a run ends: it completes, it calls \<^verbatim>\<open>sys.exit(code)\<close>, an exception is not
  caught, or it waits for ever on a queue.\<close>

datatype outcome = Completed | Exit nat | Uncaught string | Blocked

section \<open>SplitCountingWorker\<close>

text \<open>What a worker does that others can observe: a read of \<^verbatim>\<open>self.kill_received\<close> with
  the value read, a tree taken from the current file and counted or skipped, a result put
  on one of the two result queues, a message sent.\<close>

datatype worker_event =
    Kill_received bool
  | Counted tree
  | Skipped tree
  | Put_split_dist
  | Put_topology_hash_map
  | Send level string

text \<open>Lines 76-111: the attributes of a worker that the model uses. The two result queues
  are shared by all workers; the fields hold what this worker has put on them.
  \<open>kill_reads\<close> counts the reads of \<^verbatim>\<open>self.kill_received\<close> so far and \<open>trace\<close> is the
  sequence of the worker's events.\<close>

record worker =
  taxon_labels :: "string list"
  w_taxon_namespace :: taxon_namespace
  split_distribution :: split_distribution
  calc_tree_probs :: bool
  topology_counter :: topology_hash_map
  tree_offset :: int
  process_idx :: nat
  result_split_dist_queue :: "split_distribution list"
  result_topology_hash_map_queue :: "topology_hash_map list"
  kill_reads :: nat
  trace :: "worker_event list"

text \<open>Lines 92-111, \<^verbatim>\<open>SplitCountingWorker.__init__\<close>: the worker builds its own taxon
  namespace from the labels it is given and its own distribution on that namespace.\<close>

definition SplitCountingWorker ::
    "string list \<Rightarrow> bool \<Rightarrow> bool \<Rightarrow> int \<Rightarrow> nat \<Rightarrow> worker" where
  "SplitCountingWorker labels ignore_ages calc_probs offset idx =
     (let ns = TaxonNamespace labels in
      \<lparr>taxon_labels = labels,
       w_taxon_namespace = ns,
       split_distribution = (SplitDistribution ns)\<lparr>ignore_node_ages := ignore_ages\<rparr>,
       calc_tree_probs = calc_probs,
       topology_counter = Map.empty,
       tree_offset = offset,
       process_idx = idx,
       result_split_dist_queue = [],
       result_topology_hash_map_queue = [],
       kill_reads = 0,
       trace = []\<rparr>)"

text \<open>A read of \<^verbatim>\<open>self.kill_received\<close>. Nothing in the worker sets the flag: it is set
  from outside, at a moment the worker does not choose, and it is never cleared. The
  moment is the parameter \<open>kill\<close>: \<open>None\<close> when the flag is never set, \<open>Some n\<close> when
  it is set after \<open>n\<close> reads have found it unset.\<close>

definition read_kill_received :: "nat option \<Rightarrow> worker \<Rightarrow> bool \<times> worker" where
  "read_kill_received kill w =
     (let b = (case kill of None \<Rightarrow> False | Some n \<Rightarrow> n \<le> kill_reads w)
      in (b, w\<lparr>kill_reads := kill_reads w + 1, trace := trace w @ [Kill_received b]\<rparr>))"

text \<open>Lines 142-148: the reader yields the next tree of the current file. It was given
  \<^verbatim>\<open>self.taxon_namespace\<close>, which is also the namespace of the worker's distribution
  (line 97): one object, so both fields change.\<close>

definition take_tree :: "worker \<Rightarrow> tree \<Rightarrow> worker \<times> tree" where
  "take_tree w t =
     (case read_tree (w_taxon_namespace w) t of
        (ns, t') \<Rightarrow>
          (w\<lparr>w_taxon_namespace := ns,
             split_distribution := (split_distribution w)\<lparr>sd_taxon_namespace := ns\<rparr>\<rparr>,
           t'))"

text \<open>Lines 149-158: one tree of the current file, at index \<open>tidx\<close> of that file.\<close>

definition process_tree :: "worker \<Rightarrow> int \<Rightarrow> tree \<Rightarrow> worker" where
  "process_tree w tidx t =
     (if tidx \<ge> tree_offset w then
        w\<lparr>split_distribution := count_splits_on_tree (split_distribution w) t,
          topology_counter :=
            (if calc_tree_probs w then topology_count (topology_counter w) t
             else topology_counter w),
          trace := trace w @ [Counted t]\<rparr>
      else w\<lparr>trace := trace w @ [Skipped t]\<rparr>)"

text \<open>Lines 142-160: the loop over the trees of one file, left when the flag is found
  set after a tree.\<close>

fun for_trees :: "nat option \<Rightarrow> worker \<Rightarrow> int \<Rightarrow> tree list \<Rightarrow> worker" where
  "for_trees kill w tidx [] = w"
| "for_trees kill w tidx (t # ts) =
     (case take_tree w t of
        (w0, t') \<Rightarrow>
          (case read_kill_received kill (process_tree w0 tidx t') of
             (killed, w') \<Rightarrow> if killed then w' else for_trees kill w' (tidx + 1) ts))"

text \<open>Lines 135-163: the loop over the work queue. The list is what the successive
  \<^verbatim>\<open>work_queue.get_nowait()\<close> of this worker return before \<^verbatim>\<open>queue.Empty\<close>; a source
  is the sequence of the trees of the file.\<close>

fun work_loop :: "nat option \<Rightarrow> worker \<Rightarrow> tree list list \<Rightarrow> worker" where
  "work_loop kill w [] = snd (read_kill_received kill w)"
| "work_loop kill w (source # sources) =
     (case read_kill_received kill w of
        (killed, w1) \<Rightarrow>
          if killed then w1
          else case read_kill_received kill (for_trees kill w1 0 source) of
            (killed', w2) \<Rightarrow> if killed' then w2 else work_loop kill w2 sources)"

text \<open>Lines 134-168, \<^verbatim>\<open>SplitCountingWorker.run\<close>.\<close>

definition run :: "nat option \<Rightarrow> worker \<Rightarrow> tree list list \<Rightarrow> worker" where
  "run kill w sources =
     (case read_kill_received kill (work_loop kill w sources) of
        (killed, w') \<Rightarrow>
          if killed then
            w'\<lparr>trace := trace w' @ [Send WARNING ''Terminating in response to kill request.'']\<rparr>
          else
            w'\<lparr>result_split_dist_queue := result_split_dist_queue w' @ [split_distribution w'],
               result_topology_hash_map_queue :=
                 result_topology_hash_map_queue w' @ [topology_counter w'],
               trace := trace w' @ [Put_split_dist, Put_topology_hash_map]\<rparr>)"

text \<open>An event after which a worker that has seen the kill request is still quiet: it
  reads the flag again or reports.\<close>

fun is_passive :: "worker_event \<Rightarrow> bool" where
  "is_passive (Kill_received b) = True"
| "is_passive (Send l m) = True"
| "is_passive _ = False"

text \<open>No tree is taken and nothing is put after a read that found the flag set.\<close>

fun stops_at_kill :: "worker_event list \<Rightarrow> bool" where
  "stops_at_kill [] = True"
| "stops_at_kill (Kill_received True # es) = list_all is_passive es"
| "stops_at_kill (e # es) = stops_at_kill es"

text \<open>The trees a worker has taken from its files, in order.\<close>

fun trees_taken :: "worker_event list \<Rightarrow> tree list" where
  "trees_taken [] = []"
| "trees_taken (Counted t # es) = t # trees_taken es"
| "trees_taken (Skipped t # es) = t # trees_taken es"
| "trees_taken (e # es) = trees_taken es"

section \<open>Processing the sources\<close>

text \<open>Lines 170-184, \<^verbatim>\<open>discover_taxa\<close>: the taxon namespace of the first tree of the
  file, read with a namespace of its own; the reading stops there. With no tree in the
  file \<^verbatim>\<open>tt\<close> stays \<^verbatim>\<open>None\<close> and \<^verbatim>\<open>tt.taxon_namespace\<close> raises.\<close>

definition discover_taxa :: "tree list \<Rightarrow> string + taxon_namespace" where
  "discover_taxa treefile =
     (case treefile of
        [] \<Rightarrow> Inl ''AttributeError''
      | t # _ \<Rightarrow> (case read_tree (TaxonNamespace []) t of (ns, tt) \<Rightarrow> Inr (tree_taxon_namespace tt)))"

text \<open>Lines 225-241: the workers that are started, each with the same list of labels.\<close>

definition launch_workers ::
    "nat \<Rightarrow> string list \<Rightarrow> bool \<Rightarrow> bool \<Rightarrow> int \<Rightarrow> worker list" where
  "launch_workers num_processes labels ignore_ages calc_probs offset =
     map (SplitCountingWorker labels ignore_ages calc_probs offset) [0 ..< num_processes]"

text \<open>Lines 248-253, the collation loop: \<open>num_processes\<close> results are taken from each
  result queue, in the order in which they arrive, and merged. A \<^verbatim>\<open>get()\<close> on a queue on
  which nothing arrives any more never returns: the value is \<open>None\<close>.\<close>

fun collate ::
    "nat \<Rightarrow> split_distribution \<Rightarrow> topology_hash_map \<Rightarrow> split_distribution list
      \<Rightarrow> topology_hash_map list \<Rightarrow> (split_distribution \<times> topology_hash_map) option" where
  "collate 0 d tc rs hs = Some (d, tc)"
| "collate (Suc n) d tc (r # rs) (h # hs) =
     collate n (update d r) (update_topology_hash_map tc h) rs hs"
| "collate (Suc n) d tc _ _ = None"

text \<open>What is not decided by the program in parallel mode: which sources each worker
  draws from the shared work queue, and the order in which the workers' results arrive on
  each of the two result queues (as lists of worker indices).\<close>

record schedule =
  assignment :: "tree list list list"
  split_dist_arrival :: "nat list"
  topology_arrival :: "nat list"

definition sources_of :: "schedule \<Rightarrow> nat \<Rightarrow> tree list list" where
  "sources_of sched idx =
     (if idx < length (assignment sched) then assignment sched ! idx else [])"

text \<open>The elements of a list at the given indices, in the order of the indices.\<close>

definition arrived :: "'a list \<Rightarrow> nat list \<Rightarrow> 'a list" where
  "arrived xs order = map (\<lambda>i. xs ! i) (filter (\<lambda>i. i < length xs) order)"

text \<open>The options of a run that the processing of the sources reads.\<close>

record counting_options =
  ignore_ages :: bool
  calc_probs :: bool
  burnin :: int

text \<open>Lines 207-241 of \<^verbatim>\<open>process_sources_parallel\<close>: the taxa are read from the first
  source, once, and the workers are started with the labels found. A taxon is its label
  here, so \<^verbatim>\<open>[t.label for t in taxon_namespace]\<close> is the list of the namespace.\<close>

definition started_workers ::
    "nat \<Rightarrow> tree list list \<Rightarrow> counting_options \<Rightarrow> string + taxon_namespace \<times> worker list" where
  "started_workers num_processes support_files opts =
     (case support_files of
        [] \<Rightarrow> Inl ''IndexError''
      | tdf # _ \<Rightarrow>
         (case discover_taxa tdf of
            Inl exc \<Rightarrow> Inl exc
          | Inr ns \<Rightarrow>
             let labels = map (\<lambda>t. t) ns
             in Inr (ns, launch_workers num_processes labels
                           (ignore_ages opts) (calc_probs opts) (burnin opts))))"

text \<open>Lines 186-255, \<^verbatim>\<open>process_sources_parallel\<close>: the workers are started and run to
  their end (the driver never sets \<^verbatim>\<open>kill_received\<close>), and their results are collated.
  The result is \<open>None\<close> when the collation never returns.\<close>

definition process_sources_parallel ::
    "nat \<Rightarrow> tree list list \<Rightarrow> counting_options \<Rightarrow> schedule
      \<Rightarrow> (string + split_distribution \<times> topology_hash_map) option" where
  "process_sources_parallel num_processes support_files opts sched =
     (case started_workers num_processes support_files opts of
        Inl exc \<Rightarrow> Some (Inl exc)
      | Inr (ns, workers) \<Rightarrow>
          let finished = map (\<lambda>w. run None w (sources_of sched (process_idx w))) workers;
              dists = arrived (concat (map result_split_dist_queue finished))
                        (split_dist_arrival sched);
              maps = arrived (concat (map result_topology_hash_map_queue finished))
                        (topology_arrival sched)
          in map_option Inr
               (collate num_processes
                  ((SplitDistribution ns)\<lparr>ignore_node_ages := ignore_ages opts\<rparr>)
                  Map.empty dists maps))"

text \<open>Lines 318-324, \<^verbatim>\<open>mixed_tree_rootings_in_source_error\<close>: the message; the caller
  then leaves with \<^verbatim>\<open>sys.exit(1)\<close>.\<close>

definition mixed_tree_rootings_message :: string where
  "mixed_tree_rootings_message =
     ''Both rooted as well as unrooted trees found in input trees.''
     @ '' Support values are meaningless. Rerun SumTrees using the''
     @ '' '--rooted' or the '--unrooted' option to force a consistent''
     @ '' rooting state for the support trees.''"

text \<open>The state of \<^verbatim>\<open>process_sources_serial\<close>: the distribution, the topology counter,
  and whether \<^verbatim>\<open>sys.exit\<close> has been called.\<close>

record serial_state =
  ser_distribution :: split_distribution
  ser_topology_counter :: topology_hash_map
  ser_exit :: "nat option"

text \<open>Lines 289-296: the reader yields the next tree. It was given the namespace that
  line 273 creates, which is the namespace of the distribution (line 274).\<close>

definition yield_tree :: "serial_state \<Rightarrow> tree \<Rightarrow> serial_state \<times> tree" where
  "yield_tree st t =
     (case read_tree (sd_taxon_namespace (ser_distribution st)) t of
        (ns, t') \<Rightarrow> (st\<lparr>ser_distribution := (ser_distribution st)\<lparr>sd_taxon_namespace := ns\<rparr>\<rparr>, t'))"

text \<open>Lines 296-313: the loop over the trees of all sources. \<open>tidx\<close> is the index of
  the tree in the sequence of all trees of all sources, as \<^verbatim>\<open>enumerate(tree_yielder)\<close>
  numbers them.\<close>

fun serial_loop :: "int \<Rightarrow> serial_state \<Rightarrow> int \<Rightarrow> tree list \<Rightarrow> serial_state" where
  "serial_loop offset st tidx [] = st"
| "serial_loop offset st tidx (t # ts) =
     (case yield_tree st t of
        (st0, t') \<Rightarrow>
          if tidx \<ge> offset then
            let d = count_splits_on_tree (ser_distribution st0) t' in
            if card (tree_rooting_types_counted d) > 1
            then st0\<lparr>ser_distribution := d, ser_exit := Some 1\<rparr>
            else serial_loop offset
                   (st0\<lparr>ser_distribution := d,
                        ser_topology_counter := topology_count (ser_topology_counter st0) t'\<rparr>)
                   (tidx + 1) ts
          else serial_loop offset st0 (tidx + 1) ts)"

text \<open>Lines 257-316, \<^verbatim>\<open>process_sources_serial\<close>: the sources are read one after the
  other as one sequence of trees (\<^verbatim>\<open>Tree.yield_from_files(srcs, ...)\<close>), into a namespace
  that is empty at first.\<close>

definition process_sources_serial :: "tree list list \<Rightarrow> counting_options \<Rightarrow> serial_state" where
  "process_sources_serial srcs opts =
     serial_loop (burnin opts)
       \<lparr>ser_distribution =
          (SplitDistribution (TaxonNamespace []))\<lparr>ignore_node_ages := ignore_ages opts\<rparr>,
        ser_topology_counter = Map.empty,
        ser_exit = None\<rparr>
       0 (concat srcs)"

section \<open>The driver\<close>

text \<open>What \<^verbatim>\<open>main_cli\<close> does that the claims are about: messages of the messenger, the
  calls that build or annotate the summary tree, and the writing of the three outputs.\<close>

datatype event =
    Message level string
  | Map_split_support_to_tree tree
  | Tree_from_splits pyfloat
  | Write_result_trees
  | Write_tree_probabilities
  | Write_split_edge_lengths

text \<open>The argument of \<^verbatim>\<open>--multiprocessing\<close>, a non-empty string: \<^verbatim>\<open>*\<close>, \<^verbatim>\<open>@\<close>, a
  string that \<^verbatim>\<open>int()\<close> accepts, or another string.\<close>

datatype multiprocess_arg = Star | At | Number int | Not_a_number string

text \<open>The options and the environment of a run, after the checks of the command line
  (lines 586-698): the trees of the support sources and of the target file, with the
  rooting that the rooting interpretation of the run gives them, the options, the number
  of cores, whether \<^verbatim>\<open>multiprocessing\<close> could be imported, and the schedule of a parallel
  run. \<open>root_at_midpoint\<close> stands for the library method of that name.\<close>

record run_input =
  support_files :: "tree list list"
  target_trees :: "tree list option"
  counting :: counting_options
  multiprocess :: "multiprocess_arg option"
  MP :: bool
  cpu_count :: nat
  sched :: schedule
  min_clade_freq :: pyfloat
  root_target_at_midpoint :: bool
  root_at_midpoint :: "tree \<Rightarrow> tree"
  to_newick_format :: bool
  include_meta_comments :: bool
  additional_comments :: bool
  trprobs :: bool
  extract_edges :: bool

text \<open>What a run leaves behind: its events in order, the master split distribution as
  far as it got, and how the run ended.\<close>

record run_result =
  events :: "event list"
  master_split_distribution :: "split_distribution option"
  ending :: outcome

text \<open>The text that \<^verbatim>\<open>%d\<close> gives for an integer.\<close>

fun decimal_string :: "nat \<Rightarrow> string" where
  "decimal_string n =
     (if n < 10 then [''0123456789'' ! n]
      else decimal_string (n div 10) @ [''0123456789'' ! (n mod 10)])"

declare decimal_string.simps [simp del]

definition percent_d :: "int \<Rightarrow> string" where
  "percent_d i = (if i < 0 then CHR ''-'' # decimal_string (nat (- i)) else decimal_string (nat i))"

text \<open>Lines 709-721: the number of processes, or the error that ends the run. The
  character \<open>0x27\<close> is the single quote of line 717.\<close>

definition num_processes_of :: "run_input \<Rightarrow> multiprocess_arg \<Rightarrow> event list + nat" where
  "num_processes_of inp arg =
     (case (case arg of
              Star \<Rightarrow> Inr (int (cpu_count inp))
            | At \<Rightarrow> Inr (int (length (support_files inp)))
            | Number n \<Rightarrow> Inr n
            | Not_a_number txt \<Rightarrow>
                Inl [Message ERROR
                      (CHR 0x27 # txt @ CHR 0x27 #
                       '' is not a valid number of processes (must be a positive integer).'')]) of
        Inl errors \<Rightarrow> Inl errors
      | Inr num_processes \<Rightarrow>
          if num_processes \<le> 0 then
            Inl [Message ERROR
                  (''Maximum number of processes set to '' @ percent_d num_processes
                   @ '': cannot run SumTrees with less than 1 process'')]
          else Inr (nat num_processes))"

text \<open>Line 723: the warning of a parallel run with one process.\<close>

definition one_process_warning :: "nat \<Rightarrow> event list" where
  "one_process_warning num_processes =
     (if num_processes = 1 then
        [Message WARNING
          (''Running in parallel processing mode but limited to only 1 process:''
           @ '' probably more efficient to run in serial mode!'')]
      else [])"

text \<open>Lines 738-739: the warning of a serial run for which parallel mode was asked.\<close>

definition one_source_warning :: "run_input \<Rightarrow> event list" where
  "one_source_warning inp =
     (if MP inp \<and> multiprocess inp \<noteq> None \<and> length (support_files inp) = 1 then
        [Message WARNING
          (''Parallel processing mode requested but only one source specified:''
           @ '' defaulting to serial mode.'')]
      else [])"

text \<open>Lines 704-752: counting the splits, in parallel or serial mode. The result is the
  run so far and, when the run goes on, the distribution and the topology counter.\<close>

definition count_the_splits ::
    "run_input \<Rightarrow> run_result \<times> (split_distribution \<times> topology_hash_map) option" where
  "count_the_splits inp =
     (case (if length (support_files inp) > 1 \<and> MP inp then multiprocess inp else None) of
        Some arg \<Rightarrow>
          (case num_processes_of inp arg of
             Inl errors \<Rightarrow>
               (\<lparr>events = errors, master_split_distribution = None, ending = Exit 1\<rparr>, None)
           | Inr num_processes \<Rightarrow>
               (case process_sources_parallel num_processes (support_files inp)
                       (counting inp) (sched inp) of
                  None \<Rightarrow>
                    (\<lparr>events = one_process_warning num_processes,
                      master_split_distribution = None, ending = Blocked\<rparr>, None)
                | Some (Inl exc) \<Rightarrow>
                    (\<lparr>events = one_process_warning num_processes,
                      master_split_distribution = None, ending = Uncaught exc\<rparr>, None)
                | Some (Inr (d, tc)) \<Rightarrow>
                    (\<lparr>events = one_process_warning num_processes,
                      master_split_distribution = Some d, ending = Completed\<rparr>,
                     Some (d, tc))))
      | None \<Rightarrow>
          (let st = process_sources_serial (support_files inp) (counting inp) in
           case ser_exit st of
             Some code \<Rightarrow>
               (\<lparr>events = one_source_warning inp @ [Message ERROR mixed_tree_rootings_message],
                 master_split_distribution = Some (ser_distribution st),
                 ending = Exit code\<rparr>, None)
           | None \<Rightarrow>
               (\<lparr>events = one_source_warning inp,
                 master_split_distribution = Some (ser_distribution st),
                 ending = Completed\<rparr>,
                Some (ser_distribution st, ser_topology_counter st))))"

text \<open>Python objects as far as line 852 needs them: the attribute
  \<^verbatim>\<open>master_split_distribution.is_all_counted_trees_rooted\<close> is read there and not called
  (the test module calls it: \<^verbatim>\<open>sd.is_all_counted_trees_rooted()\<close>), so the condition is the
  truth value of a bound method, and a method object is true.\<close>

datatype pyobject = Bound_method string | Bool bool | None_object

fun truth :: "pyobject \<Rightarrow> bool" where
  "truth (Bound_method name) = True"
| "truth (Bool b) = b"
| "truth None_object = False"

definition is_all_counted_trees_rooted_attribute :: "split_distribution \<Rightarrow> pyobject" where
  "is_all_counted_trees_rooted_attribute d = Bound_method ''is_all_counted_trees_rooted''"

text \<open>Lines 848-865: one target tree. Either the run ends with an error or support is
  mapped onto the tree.\<close>

definition map_target_tree :: "run_input \<Rightarrow> split_distribution \<Rightarrow> tree \<Rightarrow> event list \<times> outcome" where
  "map_target_tree inp d t0 =
     (let t = (if root_target_at_midpoint inp then root_at_midpoint inp t0 else t0) in
      if truth (is_all_counted_trees_rooted_attribute d) then
        if is_rooted t \<noteq> Some True then
          ([Message ERROR
             (''Support trees are rooted, but target tree is unrooted. Root target tree(s)''
              @ '' and re-run, or run using the '--root-target' flag.'')],
           Exit 1)
        else ([Map_split_support_to_tree t], Completed)
      else if is_rooted t = Some True then
        ([Message ERROR
           (''Support trees are unrooted, but target tree is rooted. Ensure target tree(s)''
            @ '' are all of the same rooting state as the input support trees.'')],
         Exit 1)
      else ([Map_split_support_to_tree t], Completed))"

text \<open>Lines 843-865: the loop over the target trees, left at the first error. The reader
  is given the namespace of the master distribution (lines 764 and 845).\<close>

fun map_target_trees :: "run_input \<Rightarrow> split_distribution \<Rightarrow> tree list \<Rightarrow> event list \<times> outcome" where
  "map_target_trees inp d [] = ([], Completed)"
| "map_target_trees inp d (t # ts) =
     (case read_tree (sd_taxon_namespace d) t of
        (ns, t') \<Rightarrow>
          (case map_target_tree inp (d\<lparr>sd_taxon_namespace := ns\<rparr>) t' of
             (es, Completed) \<Rightarrow>
               (case map_target_trees inp (d\<lparr>sd_taxon_namespace := ns\<rparr>) ts of
                  (es', out) \<Rightarrow> (es @ es', out))
           | (es, out) \<Rightarrow> (es, out)))"

text \<open>Lines 876-880: the frequency threshold that is passed to \<^verbatim>\<open>tree_from_splits\<close>.\<close>

definition consensus_min_freq :: "pyfloat \<Rightarrow> event list \<times> pyfloat" where
  "consensus_min_freq freq =
     (if float_gt freq (Finite 1) then
        ([Message WARNING ''Maximum frequency threshold for clade inclusion is 1.0: reset to 1.0.''],
         Finite 1)
      else ([], freq))"

text \<open>Lines 840-895: the summary trees, from the target file or as a consensus tree.
  Lines 870 and 888 read \<^verbatim>\<open>opts.outgroup\<close>, which no option defines.\<close>

definition summary_trees :: "run_input \<Rightarrow> split_distribution \<Rightarrow> event list \<times> outcome" where
  "summary_trees inp d =
     (case target_trees inp of
        Some ts \<Rightarrow>
          (case map_target_trees inp d ts of
             (es, Completed) \<Rightarrow>
               if root_target_at_midpoint inp then (es, Uncaught ''AttributeError'')
               else (es, Completed)
           | (es, out) \<Rightarrow> (es, out))
      | None \<Rightarrow>
          (case consensus_min_freq (min_clade_freq inp) of
             (es, min_freq) \<Rightarrow>
               if root_target_at_midpoint inp
               then (es @ [Tree_from_splits min_freq], Uncaught ''AttributeError'')
               else (es @ [Tree_from_splits min_freq], Completed)))"

text \<open>Lines 963-1074: writing the results. Without the meta comments the variable
  \<^verbatim>\<open>comment\<close> is read before it is assigned (lines 1009 and 1014), and in Newick format
  the variable \<^verbatim>\<open>simple\<close> is (line 1049).\<close>

definition write_results :: "run_input \<Rightarrow> event list \<times> outcome" where
  "write_results inp =
     (if \<not> to_newick_format inp \<and> \<not> include_meta_comments inp
      then ([], Uncaught ''UnboundLocalError'')
      else if trprobs inp \<and> to_newick_format inp
      then ([Write_result_trees], Uncaught ''UnboundLocalError'')
      else ([Write_result_trees]
            @ (if trprobs inp then [Write_tree_probabilities] else [])
            @ (if extract_edges inp then [Write_split_edge_lengths] else []),
            Completed))"

text \<open>\<^verbatim>\<open>main_cli\<close> from line 700 on: the splits are counted, mixed rootings end the run
  (line 780), the summary trees are built, and the results are written. The library calls
  that annotate and summarize (lines 897-947) are taken to return.\<close>

definition main_cli :: "run_input \<Rightarrow> run_result" where
  "main_cli inp =
     (case count_the_splits inp of
        (r, None) \<Rightarrow> r
      | (r, Some (d, tc)) \<Rightarrow>
          if is_mixed_rootings_counted d then
            r\<lparr>events := events r @ [Message ERROR mixed_tree_rootings_message],
              ending := Exit 1\<rparr>
          else
            (case summary_trees inp d of
               (es, Completed) \<Rightarrow>
                 (case write_results inp of
                    (es', out) \<Rightarrow> r\<lparr>events := events r @ es @ es', ending := out\<rparr>)
             | (es, out) \<Rightarrow> r\<lparr>events := events r @ es, ending := out\<rparr>))"

text \<open>The events that write summary output.\<close>

fun is_output :: "event \<Rightarrow> bool" where
  "is_output Write_result_trees = True"
| "is_output Write_tree_probabilities = True"
| "is_output Write_split_edge_lengths = True"
| "is_output (Map_split_support_to_tree t) = False"
| "is_output (Tree_from_splits f) = False"
| "is_output (Message l m) = False"

section \<open>Example inputs\<close>

text \<open>Four taxa and trees on them with a single inner edge each, named by the clade
  that the edge cuts off.\<close>

definition example_taxa :: taxon_namespace where
  "example_taxa = [''a'', ''b'', ''c'', ''d'']"

definition example_tree :: "bool option \<Rightarrow> nat \<Rightarrow> tree" where
  "example_tree rooting bitmask =
     \<lparr>tree_taxon_namespace = example_taxa,
      is_rooted = rooting,
      weight = None,
      edges = [\<lparr>split_bitmask = bitmask, is_root_edge = False,
                edge_length = Some 1, node_age = None\<rparr>]\<rparr>"

definition tree_ab :: tree where "tree_ab = example_tree (Some True) 3"
definition tree_ac :: tree where "tree_ac = example_tree (Some True) 5"
definition tree_ad :: tree where "tree_ad = example_tree (Some True) 9"
definition tree_bc :: tree where "tree_bc = example_tree (Some True) 6"
definition unrooted_ab :: tree where "unrooted_ab = example_tree (Some False) 3"

text \<open>Two trees on six taxa that both hold the clade of \<open>a\<close> and \<open>e\<close>. Their statements
  name the taxa \<open>e\<close> and \<open>f\<close> in opposite orders, so the clade is the split \<open>17\<close> of
  the first and the split \<open>33\<close> of the second.\<close>

definition tree_ae_ef :: tree where
  "tree_ae_ef =
     \<lparr>tree_taxon_namespace = [''a'', ''b'', ''c'', ''d'', ''e'', ''f''],
      is_rooted = Some True,
      weight = None,
      edges = [\<lparr>split_bitmask = 17, is_root_edge = False,
                edge_length = Some 1, node_age = None\<rparr>]\<rparr>"

definition tree_ae_fe :: tree where
  "tree_ae_fe =
     \<lparr>tree_taxon_namespace = [''a'', ''b'', ''c'', ''d'', ''f'', ''e''],
      is_rooted = Some True,
      weight = None,
      edges = [\<lparr>split_bitmask = 33, is_root_edge = False,
                edge_length = Some 1, node_age = None\<rparr>]\<rparr>"

definition example_options :: "int \<Rightarrow> counting_options" where
  "example_options b = \<lparr>ignore_ages = True, calc_probs = False, burnin = b\<rparr>"

definition example_schedule :: "tree list list list \<Rightarrow> nat list \<Rightarrow> schedule" where
  "example_schedule shares order =
     \<lparr>assignment = shares, split_dist_arrival = order, topology_arrival = order\<rparr>"

text \<open>A serial run on the given support files, with default options otherwise.\<close>

definition example_input :: "tree list list \<Rightarrow> tree list option \<Rightarrow> pyfloat \<Rightarrow> run_input" where
  "example_input files targets freq =
     \<lparr>support_files = files,
      target_trees = targets,
      counting = example_options 0,
      multiprocess = None,
      MP = True,
      cpu_count = 2,
      sched = example_schedule [] [],
      min_clade_freq = freq,
      root_target_at_midpoint = False,
      root_at_midpoint = (\<lambda>t. t),
      to_newick_format = False,
      include_meta_comments = True,
      additional_comments = False,
      trprobs = False,
      extract_edges = False\<rparr>"

section \<open>Auxiliary definitions for the proofs\<close>

text \<open>The effect of counting one edge on the dictionary of split counts.\<close>

definition add_edge_count :: "tree \<Rightarrow> rat \<Rightarrow> (nat \<rightharpoonup> rat) \<Rightarrow> edge \<Rightarrow> (nat \<rightharpoonup> rat)" where
  "add_edge_count t w m e =
     (if is_edge_counted t e then m(split_key t e \<mapsto> count_of m (split_key t e) + w) else m)"

text \<open>Whether a read of \<^verbatim>\<open>self.kill_received\<close> has found the flag set so far.\<close>

definition kill_seen :: "nat option \<Rightarrow> worker \<Rightarrow> bool" where
  "kill_seen kill w = (case kill of None \<Rightarrow> False | Some n \<Rightarrow> n < kill_reads w)"

text \<open>What holds of a worker all along its run: its trace shows a read that found the
  flag set exactly when there was one, nothing but reads and messages follows such a read,
  and nothing has been put on a result queue.\<close>

definition worker_inv :: "nat option \<Rightarrow> worker \<Rightarrow> bool" where
  "worker_inv kill w =
     ((Kill_received True \<in> set (trace w)) = kill_seen kill w
      \<and> stops_at_kill (trace w)
      \<and> Put_split_dist \<notin> set (trace w)
      \<and> Put_topology_hash_map \<notin> set (trace w)
      \<and> result_split_dist_queue w = []
      \<and> result_topology_hash_map_queue w = [])"

chapter \<open>Properties\<close>

section \<open>The default clade frequency threshold\<close>

lemma Decimal_of_half: "Decimal_of_float (1, 2) = \<lparr>coefficient = 5, exponent = - 1\<rparr>"
  by (simp add: Decimal_of_float_def bit_length.simps)

lemma next_plus_half:
  "next_plus default_context_prec \<lparr>coefficient = 5, exponent = - 1\<rparr> =
     \<lparr>coefficient = 5000000000000000000000000001, exponent = - 28\<rparr>"
  by (simp add: next_plus_def default_context_prec_def digits.simps)

lemma bit_length_next_plus_half: "bit_length 5000000000000000000000000001 = 93"
  by (simp add: bit_length.simps)

lemma bit_length_10_28: "bit_length 10000000000000000000000000000 = 94"
  by (simp add: bit_length.simps)

lemma binary_exponent_next_plus_half:
  "binary_exponent (5000000000000000000000000001, 10000000000000000000000000000) = - 1"
  by (simp add: binary_exponent_def bit_length_next_plus_half bit_length_10_28 scale2_def)

lemma float_of_next_plus_half:
  "float_of_decimal \<lparr>coefficient = 5000000000000000000000000001, exponent = - 28\<rparr> =
     Finite (1 / 2)"
  by (simp add: float_of_decimal_def decimal_fraction_def binary_exponent_next_plus_half
      scale2_def round_half_even_def Let_def)

lemma GREATER_THAN_50_PERCENT_value: "GREATER_THAN_50_PERCENT = Finite (1 / 2)"
  by (simp add: GREATER_THAN_50_PERCENT_def Decimal_of_half next_plus_half
      float_of_next_plus_half)

lemma bit_length_50000001: "bit_length 50000001 = 26"
  by (simp add: bit_length.simps)

lemma bit_length_10_8: "bit_length 100000000 = 27"
  by (simp add: bit_length.simps)

lemma binary_exponent_50000001: "binary_exponent (50000001, 100000000) = - 1"
  by (simp add: binary_exponent_def bit_length_50000001 bit_length_10_8 scale2_def)

lemma float_of_50000001:
  "float_of_decimal \<lparr>coefficient = 50000001, exponent = - 8\<rparr> =
     Finite (4503599717442489 / 9007199254740992)"
  by (simp add: float_of_decimal_def decimal_fraction_def binary_exponent_50000001
      scale2_def round_half_even_def Let_def)

text \<open>C3. The claim is that \<^verbatim>\<open>GREATER_THAN_50_PERCENT\<close> is strictly greater than
  \<open>0.5\<close>, so that a split of frequency exactly \<open>0.5\<close> stays out of the default
  consensus tree. The code computes something else: \<^verbatim>\<open>Decimal(0.5).next_plus()\<close> is
  \<open>0.5 + 10\<^sup>-\<^sup>2\<^sup>8\<close>, and the nearest double to that is \<open>0.5\<close> itself, so the constant
  equals \<open>0.5\<close> and a split of frequency \<open>0.5\<close> clears the default threshold. A split of
  frequency \<open>0.50000001\<close> clears it as the claim says.\<close>

theorem GREATER_THAN_50_PERCENT_rounds_to_half:
  "next_plus default_context_prec (Decimal_of_float (1, 2)) =
     \<lparr>coefficient = 5000000000000000000000000001, exponent = - 28\<rparr>
   \<and> GREATER_THAN_50_PERCENT = Finite (1 / 2)
   \<and> clears_min_freq (Finite (1 / 2)) GREATER_THAN_50_PERCENT
   \<and> clears_min_freq (float_of_decimal \<lparr>coefficient = 50000001, exponent = - 8\<rparr>)
        GREATER_THAN_50_PERCENT"
  by (simp add: Decimal_of_half next_plus_half GREATER_THAN_50_PERCENT_value
      float_of_50000001 clears_min_freq_def float_ge_def)

section \<open>Trivial splits\<close>

lemma count_bits_21: "count_bits 21 = 3"
  by code_simp

lemma count_bits_rec: "count_bits n = n mod 2 + count_bits (n div 2)"
  by (cases "n = 0") (simp_all add: count_bits.simps)

lemma count_bits_0 [simp]: "count_bits 0 = 0"
  by (simp add: count_bits.simps)

lemma and_nat_div2: "(s AND m) div 2 = (s div 2) AND (m div 2)" for s m :: nat
  by (subst and_rec [of s m]) simp

lemma and_nat_mod2: "(s AND m) mod 2 = of_bool (odd s \<and> odd m)" for s m :: nat
  by (subst and_rec [of s m]) simp

text \<open>The two sides of a split among the taxa of a mask, as numbers of set bits: the
  split holds \<open>popcount (s AND m)\<close> taxa of the mask and leaves out the others.\<close>

lemma split_sides_count:
  "split_sides s m = (count_bits (s AND m), count_bits m - count_bits (s AND m))
   \<and> count_bits (s AND m) \<le> count_bits m"
proof (induction s m rule: split_sides.induct)
  case (1 s m)
  show ?case
  proof (cases "m = 0")
    case True
    then show ?thesis by (simp add: split_sides.simps)
  next
    case False
    note IH = 1 [OF False]
    have cm: "count_bits m = m mod 2 + count_bits (m div 2)"
      by (rule count_bits_rec)
    have cs: "count_bits (s AND m) =
        of_bool (odd s \<and> odd m) + count_bits ((s div 2) AND (m div 2))"
      by (subst count_bits_rec) (simp add: and_nat_div2 and_nat_mod2)
    from IH False show ?thesis
      by (subst split_sides.simps) (auto simp: cm cs odd_iff_mod_2_eq_one)
  qed
qed

text \<open>C4, as stated: \<^verbatim>\<open>is_trivial_split(s, m)\<close> is true iff \<open>popcount s = 1\<close> or
  \<open>popcount s = popcount m - 1\<close>. The first assertion of \<^verbatim>\<open>IsTrivialTest\<close> expects
  \<^verbatim>\<open>is_trivial_split(0, 0xF)\<close> to be \<^verbatim>\<open>True\<close>, where the formula of the claim is false
  (\<open>popcount 0 = 0\<close>); the same happens at \<open>s = 9\<close> for the sparse mask \<^verbatim>\<open>0x17\<close>, where
  the bit \<open>8\<close> of the split is not a taxon of the mask.\<close>

theorem is_trivial_claim_contradicts_IsTrivialTest:
  "IsTrivialTest_0xF ! 0 = True \<and> is_trivial 0 0xF = False
   \<and> IsTrivialTest_0x17 ! 9 = True \<and> is_trivial 9 0x17 = False"
  by code_simp

text \<open>C4, amended: for every split \<open>s\<close> and every mask \<open>m\<close>,
  \<^verbatim>\<open>is_trivial_split(s, m)\<close> is true iff \<open>popcount (s AND m) \<le> 1\<close> or
  \<open>popcount (s AND m) \<ge> popcount m - 1\<close>: the split is first restricted to the taxa of
  the mask, and the empty and the full split are trivial too. With this every assertion
  of \<^verbatim>\<open>IsTrivialTest\<close> holds (the splits \<open>0, ..., 31\<close> against the masks \<^verbatim>\<open>0xF\<close>,
  \<^verbatim>\<open>0x1F\<close> and the sparse \<^verbatim>\<open>0x17\<close>); in particular the value is true at
  \<open>(0b0001, 0xF)\<close> and false at \<open>(0b0011, 0xF)\<close>.\<close>

theorem is_trivial_split_iff_popcount:
  "is_trivial_split s m =
     (count_bits (s AND m) \<le> 1 \<or> int (count_bits (s AND m)) \<ge> int (count_bits m) - 1)
   \<and> map (\<lambda>s. is_trivial_split s 0xF) IsTrivialTest_splits = IsTrivialTest_0xF
   \<and> map (\<lambda>s. is_trivial_split s 0x1F) IsTrivialTest_splits = IsTrivialTest_0x1F
   \<and> map (\<lambda>s. is_trivial_split s 0x17) IsTrivialTest_splits = IsTrivialTest_0x17
   \<and> is_trivial_split 1 0xF = True \<and> is_trivial_split 3 0xF = False"
proof -
  have general: "is_trivial_split s m =
     (count_bits (s AND m) \<le> 1 \<or> int (count_bits (s AND m)) \<ge> int (count_bits m) - 1)"
    using split_sides_count [of s m] by (auto simp: is_trivial_split_def)
  have tables: "map (\<lambda>s. is_trivial_split s 0xF) IsTrivialTest_splits = IsTrivialTest_0xF
   \<and> map (\<lambda>s. is_trivial_split s 0x1F) IsTrivialTest_splits = IsTrivialTest_0x1F
   \<and> map (\<lambda>s. is_trivial_split s 0x17) IsTrivialTest_splits = IsTrivialTest_0x17
   \<and> is_trivial_split 1 0xF = True \<and> is_trivial_split 3 0xF = False"
    by code_simp
  from general tables show ?thesis by blast
qed

section \<open>What counting a tree changes\<close>

lemma count_edge_fields [simp]:
  "total_trees_counted (count_edge t w d e) = total_trees_counted d"
  "sum_of_tree_weights (count_edge t w d e) = sum_of_tree_weights d"
  "tree_rooting_types_counted (count_edge t w d e) = tree_rooting_types_counted d"
  "ignore_edge_lengths (count_edge t w d e) = ignore_edge_lengths d"
  "ignore_node_ages (count_edge t w d e) = ignore_node_ages d"
  "ignore_tree_weights (count_edge t w d e) = ignore_tree_weights d"
  "sd_taxon_namespace (count_edge t w d e) = sd_taxon_namespace d"
  "split_counts (count_edge t w d e) = add_edge_count t w (split_counts d) e"
  by (simp_all add: count_edge_def add_edge_count_def Let_def)

lemma count_edges_fields [simp]:
  "total_trees_counted (foldl (count_edge t w) d es) = total_trees_counted d"
  "sum_of_tree_weights (foldl (count_edge t w) d es) = sum_of_tree_weights d"
  "tree_rooting_types_counted (foldl (count_edge t w) d es) = tree_rooting_types_counted d"
  "ignore_edge_lengths (foldl (count_edge t w) d es) = ignore_edge_lengths d"
  "ignore_node_ages (foldl (count_edge t w) d es) = ignore_node_ages d"
  "ignore_tree_weights (foldl (count_edge t w) d es) = ignore_tree_weights d"
  "sd_taxon_namespace (foldl (count_edge t w) d es) = sd_taxon_namespace d"
  "split_counts (foldl (count_edge t w) d es) = foldl (add_edge_count t w) (split_counts d) es"
  by (induction es arbitrary: d; simp)+

lemma count_splits_on_tree_fields [simp]:
  "total_trees_counted (count_splits_on_tree d t) = total_trees_counted d + 1"
  "sum_of_tree_weights (count_splits_on_tree d t) = sum_of_tree_weights d + weight_to_use d t"
  "tree_rooting_types_counted (count_splits_on_tree d t) =
     insert (is_rooted t) (tree_rooting_types_counted d)"
  "ignore_edge_lengths (count_splits_on_tree d t) = ignore_edge_lengths d"
  "ignore_node_ages (count_splits_on_tree d t) = ignore_node_ages d"
  "ignore_tree_weights (count_splits_on_tree d t) = ignore_tree_weights d"
  "sd_taxon_namespace (count_splits_on_tree d t) = sd_taxon_namespace d"
  "split_counts (count_splits_on_tree d t) =
     foldl (add_edge_count t (weight_to_use d t)) (split_counts d) (edges t)"
  by (simp_all add: count_splits_on_tree_def Let_def weight_to_use_def)

lemma SplitDistribution_fields [simp]:
  "total_trees_counted (SplitDistribution ns) = 0"
  "sum_of_tree_weights (SplitDistribution ns) = 0"
  "tree_rooting_types_counted (SplitDistribution ns) = {}"
  "split_counts (SplitDistribution ns) = Map.empty"
  "ignore_tree_weights (SplitDistribution ns) = False"
  "sd_taxon_namespace (SplitDistribution ns) = ns"
  by (simp_all add: SplitDistribution_def)

lemma example_tree_fields [simp]:
  "is_rooted (example_tree r b) = r"
  "weight (example_tree r b) = None"
  "weight_to_use d (example_tree r b) = 1"
  "foldl (add_edge_count (example_tree (Some True) b) w) m (edges (example_tree (Some True) b)) =
     m(b \<mapsto> count_of m b + w)"
  by (simp_all add: example_tree_def weight_to_use_def add_edge_count_def is_edge_counted_def
      split_key_def)

lemma example_input_fields [simp]:
  "support_files (example_input fs ts f) = fs"
  "target_trees (example_input fs ts f) = ts"
  "min_clade_freq (example_input fs ts f) = f"
  "counting (example_input fs ts f) = example_options 0"
  "multiprocess (example_input fs ts f) = None"
  "root_target_at_midpoint (example_input fs ts f) = False"
  "to_newick_format (example_input fs ts f) = False"
  "include_meta_comments (example_input fs ts f) = True"
  "trprobs (example_input fs ts f) = False"
  "extract_edges (example_input fs ts f) = False"
  by (simp_all add: example_input_def)

section \<open>Reading the example trees\<close>

lemma TaxonNamespace_Nil [simp]: "TaxonNamespace [] = []"
  by (simp add: TaxonNamespace_def)

lemma register_example_taxa [simp]:
  "foldl register [] example_taxa = example_taxa"
  "foldl register example_taxa example_taxa = example_taxa"
  "TaxonNamespace example_taxa = example_taxa"
  by (simp_all add: TaxonNamespace_def example_taxa_def register_def)

lemma reindex_example_splits [simp]:
  "reindex_split example_taxa example_taxa 3 = 3"
  "reindex_split example_taxa example_taxa 5 = 5"
  "reindex_split example_taxa example_taxa 6 = 6"
  "reindex_split example_taxa example_taxa 9 = 9"
  by code_simp+

text \<open>The example trees are trees on the example taxa in their order: a reader whose
  namespace is empty or holds these taxa delivers them as they are.\<close>

lemma read_example_tree [simp]:
  "b \<in> {3, 5, 6, 9} \<Longrightarrow> read_tree [] (example_tree r b) = (example_taxa, example_tree r b)"
  "b \<in> {3, 5, 6, 9} \<Longrightarrow>
     read_tree example_taxa (example_tree r b) = (example_taxa, example_tree r b)"
  by (auto simp: read_tree_def example_tree_def)

section \<open>Burn-in\<close>

text \<open>C5. The claim is that the leading \<open>b\<close> trees of every source are skipped, in serial
  mode as in parallel mode (the help text of \<^verbatim>\<open>--burnin\<close> says so: "number of trees to skip
  from the beginning of *each tree file*"). In serial mode the code numbers the trees
  across all sources, so with two files of two trees and a burn-in of \<open>1\<close> the first tree
  of the second file (the only tree with the split \<open>9\<close>) is counted: three trees are
  counted, not two. A worker that reads the same two files skips one tree of each.\<close>

theorem serial_burnin_counts_first_tree_of_second_file:
  "(let st = process_sources_serial [[tree_ab, tree_ac], [tree_ad, tree_bc]] (example_options 1)
    in ser_exit st = None
       \<and> total_trees_counted (ser_distribution st) = 3
       \<and> split_counts (ser_distribution st) 3 = None
       \<and> split_counts (ser_distribution st) 9 = Some 1)
   \<and> (let w = run None (SplitCountingWorker example_taxa True False 1 0)
                 [[tree_ab, tree_ac], [tree_ad, tree_bc]]
       in total_trees_counted (split_distribution w) = 2
          \<and> split_counts (split_distribution w) 3 = None
          \<and> split_counts (split_distribution w) 9 = None)"
  by (simp add: process_sources_serial_def yield_tree_def run_def take_tree_def
      read_kill_received_def process_tree_def SplitCountingWorker_def
      tree_ab_def tree_ac_def tree_ad_def tree_bc_def example_options_def count_of_def Let_def)

section \<open>The frequency threshold of the consensus tree\<close>

text \<open>C6. When no target tree is given, a \<^verbatim>\<open>min_clade_freq\<close> greater than \<open>1.0\<close> is
  replaced by \<open>1.0\<close> in the call of \<^verbatim>\<open>tree_from_splits\<close>, with a warning and without
  ending the run; a value of at most \<open>1.0\<close> is passed on unchanged.\<close>

theorem min_clade_freq_clamped:
  assumes "target_trees inp = None"
  shows "(float_gt (min_clade_freq inp) (Finite 1) \<longrightarrow>
            fst (summary_trees inp d) =
              [Message WARNING ''Maximum frequency threshold for clade inclusion is 1.0: reset to 1.0.'',
               Tree_from_splits (Finite 1)])
       \<and> (float_le (min_clade_freq inp) (Finite 1) \<longrightarrow>
            fst (summary_trees inp d) = [Tree_from_splits (min_clade_freq inp)])
       \<and> (\<forall>code. snd (summary_trees inp d) \<noteq> Exit code)"
  using assms
  by (cases "min_clade_freq inp")
     (auto simp: summary_trees_def consensus_min_freq_def split: prod.splits)

theorem min_clade_freq_clamped_witness:
  "target_trees (example_input [[tree_ab]] None (Finite 2)) = None
   \<and> float_gt (Finite 2) (Finite 1)
   \<and> fst (summary_trees (example_input [[tree_ab]] None (Finite 2)) (SplitDistribution example_taxa)) =
       [Message WARNING ''Maximum frequency threshold for clade inclusion is 1.0: reset to 1.0.'',
        Tree_from_splits (Finite 1)]
   \<and> float_le (Finite (3 / 4)) (Finite 1)
   \<and> fst (summary_trees (example_input [[tree_ab]] None (Finite (3 / 4))) (SplitDistribution example_taxa)) =
       [Tree_from_splits (Finite (3 / 4))]"
  using min_clade_freq_clamped [of "example_input [[tree_ab]] None (Finite 2)" "SplitDistribution example_taxa"]
        min_clade_freq_clamped [of "example_input [[tree_ab]] None (Finite (3 / 4))" "SplitDistribution example_taxa"]
  by simp

section \<open>The rooting of the target trees\<close>

lemma named_tree_rootings [simp]:
  "is_rooted tree_ab = Some True" "is_rooted tree_ac = Some True"
  "is_rooted tree_ad = Some True" "is_rooted tree_bc = Some True"
  "is_rooted unrooted_ab = Some False"
  by (simp_all add: tree_ab_def tree_ac_def tree_ad_def tree_bc_def unrooted_ab_def)

text \<open>A serial pass over one file that holds one of the example trees.\<close>

lemma serial_single_tree:
  assumes "b \<in> {3, 5, 6, 9}"
  shows "ser_exit (process_sources_serial [[example_tree r b]] (example_options 0)) = None"
    and "tree_rooting_types_counted
           (ser_distribution (process_sources_serial [[example_tree r b]] (example_options 0))) = {r}"
    and "sd_taxon_namespace
           (ser_distribution (process_sources_serial [[example_tree r b]] (example_options 0))) =
         example_taxa"
  using assms
  by (simp_all add: process_sources_serial_def yield_tree_def example_options_def Let_def)

text \<open>C10. The claim is that a target tree whose rooting disagrees with the support
  trees ends the run with exit code 1, in both directions. Line 852 reads the method
  \<^verbatim>\<open>is_all_counted_trees_rooted\<close> without calling it, so its condition is always true
  and the \<^verbatim>\<open>elif\<close> of line 856 is never reached: with unrooted support trees a rooted
  target tree is mapped and written, and an unrooted target tree, which agrees with the
  support trees, ends the run with the message that the support trees are rooted.\<close>

theorem rooted_target_on_unrooted_support_is_mapped:
  "(let r = main_cli (example_input [[unrooted_ab]] (Some [tree_ab]) GREATER_THAN_50_PERCENT)
    in map_option tree_rooting_types_counted (master_split_distribution r) = Some {Some False}
       \<and> events r = [Map_split_support_to_tree tree_ab, Write_result_trees]
       \<and> ending r = Completed)
   \<and> (let r = main_cli (example_input [[unrooted_ab]] (Some [unrooted_ab]) GREATER_THAN_50_PERCENT)
       in map_option tree_rooting_types_counted (master_split_distribution r) = Some {Some False}
          \<and> events r =
               [Message ERROR
                 (''Support trees are rooted, but target tree is unrooted. Root target tree(s)''
                  @ '' and re-run, or run using the '--root-target' flag.'')]
          \<and> ending r = Exit 1)"
  by (simp add: main_cli_def count_the_splits_def one_source_warning_def serial_single_tree
      is_mixed_rootings_counted_def summary_trees_def map_target_tree_def
      is_all_counted_trees_rooted_attribute_def write_results_def
      tree_ab_def unrooted_ab_def Let_def)

section \<open>The loops of a worker\<close>

lemma stops_at_kill_append:
  "stops_at_kill (xs @ ys) =
     (if Kill_received True \<in> set xs then stops_at_kill xs \<and> list_all is_passive ys
      else stops_at_kill ys)"
  by (induction xs rule: stops_at_kill.induct) auto

lemma trees_taken_append [simp]: "trees_taken (xs @ ys) = trees_taken xs @ trees_taken ys"
  by (induction xs rule: trees_taken.induct) auto

lemma stops_at_kill_single [simp]: "stops_at_kill [e]"
proof (cases e)
  case (Kill_received b)
  then show ?thesis by (cases b) simp_all
qed simp_all

lemma read_kill_received_fields [simp]:
  "fst (read_kill_received kill w) = (case kill of None \<Rightarrow> False | Some n \<Rightarrow> n \<le> kill_reads w)"
  "kill_reads (snd (read_kill_received kill w)) = kill_reads w + 1"
  "trace (snd (read_kill_received kill w)) = trace w @ [Kill_received (fst (read_kill_received kill w))]"
  "result_split_dist_queue (snd (read_kill_received kill w)) = result_split_dist_queue w"
  "result_topology_hash_map_queue (snd (read_kill_received kill w)) = result_topology_hash_map_queue w"
  "split_distribution (snd (read_kill_received kill w)) = split_distribution w"
  "topology_counter (snd (read_kill_received kill w)) = topology_counter w"
  "w_taxon_namespace (snd (read_kill_received kill w)) = w_taxon_namespace w"
  "tree_offset (snd (read_kill_received kill w)) = tree_offset w"
  "calc_tree_probs (snd (read_kill_received kill w)) = calc_tree_probs w"
  by (simp_all add: read_kill_received_def Let_def)

lemma take_tree_fields [simp]:
  "snd (take_tree w t) = snd (read_tree (w_taxon_namespace w) t)"
  "w_taxon_namespace (fst (take_tree w t)) = fst (read_tree (w_taxon_namespace w) t)"
  "split_distribution (fst (take_tree w t)) =
     (split_distribution w)\<lparr>sd_taxon_namespace := fst (read_tree (w_taxon_namespace w) t)\<rparr>"
  "kill_reads (fst (take_tree w t)) = kill_reads w"
  "trace (fst (take_tree w t)) = trace w"
  "result_split_dist_queue (fst (take_tree w t)) = result_split_dist_queue w"
  "result_topology_hash_map_queue (fst (take_tree w t)) = result_topology_hash_map_queue w"
  "topology_counter (fst (take_tree w t)) = topology_counter w"
  "tree_offset (fst (take_tree w t)) = tree_offset w"
  "calc_tree_probs (fst (take_tree w t)) = calc_tree_probs w"
  by (simp_all add: take_tree_def case_prod_beta)

lemma process_tree_fields [simp]:
  "kill_reads (process_tree w tidx t) = kill_reads w"
  "trees_taken (trace (process_tree w tidx t)) = trees_taken (trace w) @ [t]"
  "result_split_dist_queue (process_tree w tidx t) = result_split_dist_queue w"
  "result_topology_hash_map_queue (process_tree w tidx t) = result_topology_hash_map_queue w"
  "w_taxon_namespace (process_tree w tidx t) = w_taxon_namespace w"
  "sd_taxon_namespace (split_distribution (process_tree w tidx t)) =
     sd_taxon_namespace (split_distribution w)"
  "tree_offset (process_tree w tidx t) = tree_offset w"
  "calc_tree_probs (process_tree w tidx t) = calc_tree_probs w"
  by (simp_all add: process_tree_def)

text \<open>A read finds the flag set exactly when, after it, the flag has been seen set.\<close>

lemma read_kill_seen:
  "fst (read_kill_received kill w) = kill_seen kill (snd (read_kill_received kill w))"
  by (auto simp: kill_seen_def split: option.splits)

lemma kill_seen_unchanged [simp]:
  "kill_seen kill (process_tree w tidx t) = kill_seen kill w"
  "kill_seen kill (fst (take_tree w t)) = kill_seen kill w"
  by (simp_all add: kill_seen_def split: option.splits)

lemma kill_seen_after_read:
  "kill_seen kill w \<Longrightarrow> kill_seen kill (snd (read_kill_received kill w))"
  by (auto simp: kill_seen_def split: option.splits)

text \<open>The equations of the two loops, by the value that the read of the flag returns.\<close>

lemma for_trees_Cons:
  "for_trees kill w tidx (t # ts) =
     (let w' = snd (read_kill_received kill
                 (process_tree (fst (take_tree w t)) tidx (snd (take_tree w t))))
      in if kill_seen kill w' then w' else for_trees kill w' (tidx + 1) ts)"
  by (simp add: case_prod_beta Let_def read_kill_seen [symmetric] del: read_kill_received_fields
      take_tree_fields)

lemma work_loop_Cons:
  "work_loop kill w (source # sources) =
     (let w1 = snd (read_kill_received kill w) in
      if kill_seen kill w1 then w1
      else let w2 = snd (read_kill_received kill (for_trees kill w1 0 source))
           in if kill_seen kill w2 then w2 else work_loop kill w2 sources)"
  by (simp add: case_prod_beta Let_def read_kill_seen [symmetric] del: read_kill_received_fields)

text \<open>A property of workers that every read of the flag preserves, and every tree taken
  while the flag has not been seen set, holds all along the loops.\<close>

lemma for_trees_preserves:
  assumes "P w" and "\<not> kill_seen kill w"
    and rd: "\<And>w. P w \<Longrightarrow> P (snd (read_kill_received kill w))"
    and step: "\<And>w tidx t. P w \<Longrightarrow> \<not> kill_seen kill w \<Longrightarrow> t \<in> set ts \<Longrightarrow>
                 P (process_tree (fst (take_tree w t)) tidx (snd (take_tree w t)))"
  shows "P (for_trees kill w tidx ts)"
  using assms
proof (induction ts arbitrary: w tidx)
  case Nil
  then show ?case by simp
next
  case (Cons t ts)
  let ?p = "process_tree (fst (take_tree w t)) tidx (snd (take_tree w t))"
  let ?w' = "snd (read_kill_received kill ?p)"
  have "P ?p" using Cons.prems(1,2,4) by simp
  then have w': "P ?w'" by (rule Cons.prems(3))
  show ?case
  proof (cases "kill_seen kill ?w'")
    case True
    with w' show ?thesis by (simp add: for_trees_Cons Let_def del: for_trees.simps)
  next
    case False
    have "P (for_trees kill ?w' (tidx + 1) ts)"
      using w' False Cons.prems(3,4) by (intro Cons.IH) simp_all
    with False show ?thesis by (simp add: for_trees_Cons Let_def del: for_trees.simps)
  qed
qed

lemma work_loop_preserves:
  assumes "P w"
    and rd: "\<And>w. P w \<Longrightarrow> P (snd (read_kill_received kill w))"
    and step: "\<And>w tidx t. P w \<Longrightarrow> \<not> kill_seen kill w \<Longrightarrow> t \<in> set (concat sources) \<Longrightarrow>
                 P (process_tree (fst (take_tree w t)) tidx (snd (take_tree w t)))"
  shows "P (work_loop kill w sources)"
  using assms
proof (induction sources arbitrary: w)
  case Nil
  then show ?case by simp
next
  case (Cons source sources)
  let ?w1 = "snd (read_kill_received kill w)"
  let ?f = "for_trees kill ?w1 0 source"
  let ?w2 = "snd (read_kill_received kill ?f)"
  have w1: "P ?w1" using Cons.prems(1) by (rule Cons.prems(2))
  show ?case
  proof (cases "kill_seen kill ?w1")
    case True
    with w1 show ?thesis by (simp add: work_loop_Cons Let_def del: work_loop.simps)
  next
    case False
    have "P ?f"
    proof (rule for_trees_preserves [where P = P])
      show "P ?w1" by (rule w1)
      show "\<not> kill_seen kill ?w1" by (rule False)
      show "P (snd (read_kill_received kill w))" if "P w" for w
        using that by (rule Cons.prems(2))
      show "P (process_tree (fst (take_tree w t)) tidx (snd (take_tree w t)))"
        if "P w" "\<not> kill_seen kill w" "t \<in> set source" for w tidx t
        using that by (intro Cons.prems(3)) simp_all
    qed
    then have w2: "P ?w2" by (rule Cons.prems(2))
    show ?thesis
    proof (cases "kill_seen kill ?w2")
      case True
      with False w2 show ?thesis by (simp add: work_loop_Cons Let_def del: work_loop.simps)
    next
      case alive: False
      have "P (work_loop kill ?w2 sources)"
        using w2 Cons.prems(2,3) by (intro Cons.IH) simp_all
      with False alive show ?thesis by (simp add: work_loop_Cons Let_def del: work_loop.simps)
    qed
  qed
qed

text \<open>A worker that never saw the flag set has taken every tree of every source.\<close>

lemma for_trees_taken:
  "\<not> kill_seen kill (for_trees kill w tidx ts) \<Longrightarrow>
     length (trees_taken (trace (for_trees kill w tidx ts))) =
       length (trees_taken (trace w)) + length ts"
proof (induction ts arbitrary: w tidx)
  case Nil
  then show ?case by simp
next
  case (Cons t ts)
  let ?w' = "snd (read_kill_received kill
                (process_tree (fst (take_tree w t)) tidx (snd (take_tree w t))))"
  show ?case
  proof (cases "kill_seen kill ?w'")
    case True
    with Cons.prems show ?thesis by (simp add: for_trees_Cons Let_def del: for_trees.simps)
  next
    case False
    with Cons.prems have "\<not> kill_seen kill (for_trees kill ?w' (tidx + 1) ts)"
      by (simp add: for_trees_Cons Let_def del: for_trees.simps)
    from Cons.IH [OF this] False show ?thesis
      by (simp add: for_trees_Cons Let_def del: for_trees.simps)
  qed
qed

lemma work_loop_taken:
  "\<not> kill_seen kill (work_loop kill w sources) \<Longrightarrow>
     length (trees_taken (trace (work_loop kill w sources))) =
       length (trees_taken (trace w)) + length (concat sources)"
proof (induction sources arbitrary: w)
  case Nil
  then show ?case by simp
next
  case (Cons source sources)
  let ?w1 = "snd (read_kill_received kill w)"
  let ?f = "for_trees kill ?w1 0 source"
  let ?w2 = "snd (read_kill_received kill ?f)"
  show ?case
  proof (cases "kill_seen kill ?w1")
    case True
    with Cons.prems show ?thesis by (simp add: work_loop_Cons Let_def del: work_loop.simps)
  next
    case False
    show ?thesis
    proof (cases "kill_seen kill ?w2")
      case True
      with False Cons.prems show ?thesis
        by (simp add: work_loop_Cons Let_def del: work_loop.simps)
    next
      case alive: False
      then have "\<not> kill_seen kill ?f" using kill_seen_after_read by blast
      then have f: "length (trees_taken (trace ?f)) = length (trees_taken (trace w)) + length source"
        using for_trees_taken [of kill ?w1 0 source] by simp
      from False alive Cons.prems have "\<not> kill_seen kill (work_loop kill ?w2 sources)"
        by (simp add: work_loop_Cons Let_def del: work_loop.simps)
      from Cons.IH [OF this] False alive f show ?thesis
        by (simp add: work_loop_Cons Let_def del: work_loop.simps)
    qed
  qed
qed

text \<open>The end of \<^verbatim>\<open>run\<close>, by the value of the last read of the flag.\<close>

lemma run_unfold:
  "run kill w sources =
     (let w' = snd (read_kill_received kill (work_loop kill w sources)) in
      if kill_seen kill w' then
        w'\<lparr>trace := trace w' @ [Send WARNING ''Terminating in response to kill request.'']\<rparr>
      else
        w'\<lparr>result_split_dist_queue := result_split_dist_queue w' @ [split_distribution w'],
           result_topology_hash_map_queue :=
             result_topology_hash_map_queue w' @ [topology_counter w'],
           trace := trace w' @ [Put_split_dist, Put_topology_hash_map]\<rparr>)"
  by (simp add: run_def case_prod_beta Let_def read_kill_seen [symmetric]
      del: read_kill_received_fields)

section \<open>A worker that is asked to stop\<close>

lemma read_kill_received_inv:
  "worker_inv kill w \<Longrightarrow> worker_inv kill (snd (read_kill_received kill w))"
  by (auto simp: worker_inv_def kill_seen_def stops_at_kill_append split: option.splits)

lemma process_tree_inv:
  "worker_inv kill w \<Longrightarrow> \<not> kill_seen kill w \<Longrightarrow>
     worker_inv kill (process_tree (fst (take_tree w t)) tidx (snd (take_tree w t)))"
  by (auto simp: worker_inv_def kill_seen_def process_tree_def stops_at_kill_append
      split: option.splits)

lemma new_worker_inv:
  "worker_inv kill (SplitCountingWorker labels ia cp off idx)"
  "trace (SplitCountingWorker labels ia cp off idx) = []"
  by (simp_all add: worker_inv_def kill_seen_def SplitCountingWorker_def Let_def
      split: option.splits)

lemma work_loop_inv:
  "worker_inv kill (work_loop kill (SplitCountingWorker labels ia cp off idx) sources)"
proof (rule work_loop_preserves [where P = "worker_inv kill"])
  show "worker_inv kill (SplitCountingWorker labels ia cp off idx)"
    by (rule new_worker_inv)
qed (simp_all add: read_kill_received_inv process_tree_inv del: take_tree_fields)


lemma killed_example_trace:
  "trace (run (Some (Suc 0)) (SplitCountingWorker example_taxa True False 0 0)
            [[tree_ab, tree_ac]]) =
     [Kill_received False, Counted tree_ab, Kill_received True, Kill_received True,
      Kill_received True, Send WARNING ''Terminating in response to kill request.'']"
  by (simp add: run_def read_kill_received_def take_tree_def process_tree_def
      SplitCountingWorker_def tree_ab_def tree_ac_def Let_def
      del: read_kill_received_fields take_tree_fields)

lemma finished_example_trace:
  "trace (run None (SplitCountingWorker example_taxa True False 0 0) [[tree_ab]]) =
     [Kill_received False, Counted tree_ab, Kill_received False, Kill_received False,
      Kill_received False, Kill_received False, Put_split_dist, Put_topology_hash_map]"
  by (simp add: run_def read_kill_received_def take_tree_def process_tree_def
      SplitCountingWorker_def tree_ab_def Let_def
      del: read_kill_received_fields take_tree_fields)


section \<open>The taxon namespace of the workers\<close>

lemma register_distinct: "distinct (acc @ ls) \<Longrightarrow> foldl register acc ls = acc @ ls"
  by (induction ls arbitrary: acc) (auto simp: register_def)

lemma TaxonNamespace_distinct: "distinct ls \<Longrightarrow> TaxonNamespace ls = ls"
  using register_distinct [of "[]" ls] by (simp add: TaxonNamespace_def)

lemma distinct_register: "distinct acc \<Longrightarrow> distinct (foldl register acc ls)"
  by (induction ls arbitrary: acc) (auto simp: register_def)

lemma distinct_TaxonNamespace: "distinct (TaxonNamespace ls)"
  by (simp add: TaxonNamespace_def distinct_register)

text \<open>A reader whose namespace holds every taxon of a tree leaves the namespace as it
  is.\<close>

lemma register_known: "set ls \<subseteq> set ns \<Longrightarrow> foldl register ns ls = ns"
  by (induction ls) (auto simp: register_def)

lemma read_tree_known:
  "set (tree_taxon_namespace t) \<subseteq> set ns \<Longrightarrow> fst (read_tree ns t) = ns"
  by (simp add: read_tree_def Let_def register_known)

lemma read_tree_namespace:
  "tree_taxon_namespace (snd (read_tree ns t)) = fst (read_tree ns t)"
  by (simp add: read_tree_def Let_def)

text \<open>The bit index of a taxon is its position in the namespace.\<close>

lemma index_of_nth:
  "distinct ns \<Longrightarrow> i < length ns \<Longrightarrow> index_of ns (ns ! i) = Some i"
proof (induction ns arbitrary: i)
  case Nil
  then show ?case by simp
next
  case (Cons x xs)
  show ?case
  proof (cases i)
    case 0
    then show ?thesis by simp
  next
    case (Suc j)
    with Cons.prems have "xs ! j \<in> set xs" by simp
    with Cons.prems have "x \<noteq> xs ! j" by auto
    with Cons Suc show ?thesis by simp
  qed
qed

lemma started_workers_Inr:
  assumes "started_workers num_processes files opts = Inr (ns, workers)"
  shows "discover_taxa (hd files) = Inr ns"
    and "ns = TaxonNamespace (tree_taxon_namespace (hd (hd files)))"
    and "workers =
           launch_workers num_processes ns (ignore_ages opts) (calc_probs opts) (burnin opts)"
proof -
  from assms obtain tdf rest where files: "files = tdf # rest"
    by (cases files) (auto simp: started_workers_def)
  from assms files show disc: "discover_taxa (hd files) = Inr ns"
    by (auto simp: started_workers_def split: sum.splits)
  with files obtain t ts where tdf: "tdf = t # ts"
    by (cases tdf) (auto simp: discover_taxa_def)
  with disc files show "ns = TaxonNamespace (tree_taxon_namespace (hd (hd files)))"
    by (auto simp: discover_taxa_def read_tree_def TaxonNamespace_def Let_def)
  from assms files disc show
    "workers =
       launch_workers num_processes ns (ignore_ages opts) (calc_probs opts) (burnin opts)"
    by (simp add: started_workers_def)
qed

text \<open>What holds of a worker on the namespace \<open>ns\<close> all along its loops, when every
  tree it is given is a tree on taxa of \<open>ns\<close>.\<close>

lemma work_loop_namespace:
  assumes "w_taxon_namespace w = ns" and "sd_taxon_namespace (split_distribution w) = ns"
    and "result_split_dist_queue w = []" and "trace w = []"
    and taxa: "\<forall>t \<in> set (concat sources). set (tree_taxon_namespace t) \<subseteq> set ns"
  shows "w_taxon_namespace (work_loop kill w sources) = ns
       \<and> sd_taxon_namespace (split_distribution (work_loop kill w sources)) = ns
       \<and> result_split_dist_queue (work_loop kill w sources) = []
       \<and> (\<forall>t' \<in> set (trees_taken (trace (work_loop kill w sources))).
            tree_taxon_namespace t' = ns)"
proof (rule work_loop_preserves
    [where P = "\<lambda>w. w_taxon_namespace w = ns
       \<and> sd_taxon_namespace (split_distribution w) = ns
       \<and> result_split_dist_queue w = []
       \<and> (\<forall>t' \<in> set (trees_taken (trace w)). tree_taxon_namespace t' = ns)"])
  show "w_taxon_namespace w = ns
       \<and> sd_taxon_namespace (split_distribution w) = ns
       \<and> result_split_dist_queue w = []
       \<and> (\<forall>t' \<in> set (trees_taken (trace w)). tree_taxon_namespace t' = ns)"
    using assms by simp
next
  fix w :: worker
  assume "w_taxon_namespace w = ns
       \<and> sd_taxon_namespace (split_distribution w) = ns
       \<and> result_split_dist_queue w = []
       \<and> (\<forall>t' \<in> set (trees_taken (trace w)). tree_taxon_namespace t' = ns)"
  then show "w_taxon_namespace (snd (read_kill_received kill w)) = ns
       \<and> sd_taxon_namespace (split_distribution (snd (read_kill_received kill w))) = ns
       \<and> result_split_dist_queue (snd (read_kill_received kill w)) = []
       \<and> (\<forall>t' \<in> set (trees_taken (trace (snd (read_kill_received kill w)))).
            tree_taxon_namespace t' = ns)"
    by simp
next
  fix w :: worker and tidx t
  let ?p = "process_tree (fst (take_tree w t)) tidx (snd (take_tree w t))"
  assume inv: "w_taxon_namespace w = ns
       \<and> sd_taxon_namespace (split_distribution w) = ns
       \<and> result_split_dist_queue w = []
       \<and> (\<forall>t' \<in> set (trees_taken (trace w)). tree_taxon_namespace t' = ns)"
    and "t \<in> set (concat sources)"
  with taxa have known: "set (tree_taxon_namespace t) \<subseteq> set ns" by blast
  from inv have "fst (read_tree (w_taxon_namespace w) t) = ns"
    using read_tree_known [OF known] by simp
  with inv show "w_taxon_namespace ?p = ns
       \<and> sd_taxon_namespace (split_distribution ?p) = ns
       \<and> result_split_dist_queue ?p = []
       \<and> (\<forall>t' \<in> set (trees_taken (trace ?p)). tree_taxon_namespace t' = ns)"
    by (simp add: read_tree_namespace)
qed

lemma six_taxa_splits:
  "reindex_split [''a'', ''b'', ''c'', ''d'', ''e'', ''f'']
     [''a'', ''b'', ''c'', ''d'', ''e'', ''f''] 17 = 17"
  "reindex_split [''a'', ''b'', ''c'', ''d'', ''f'', ''e'']
     [''a'', ''b'', ''c'', ''d'', ''f'', ''e''] 33 = 33"
  by code_simp+

lemma read_six_taxa_trees:
  "read_tree example_taxa tree_ae_ef = ([''a'', ''b'', ''c'', ''d'', ''e'', ''f''], tree_ae_ef)"
  "read_tree example_taxa tree_ae_fe = ([''a'', ''b'', ''c'', ''d'', ''f'', ''e''], tree_ae_fe)"
  by (simp_all add: read_tree_def tree_ae_ef_def tree_ae_fe_def example_taxa_def register_def
      six_taxa_splits Let_def)

lemma example_workers_started:
  "started_workers 2 [[t], f2, f3] (example_options 0) =
     Inr (TaxonNamespace (tree_taxon_namespace t),
          launch_workers 2 (TaxonNamespace (tree_taxon_namespace t)) True False 0)"
  by (simp add: started_workers_def discover_taxa_def read_tree_def TaxonNamespace_def
      example_options_def Let_def)

lemma example_workers:
  "launch_workers 2 labels ia cp off ! 0 = SplitCountingWorker labels ia cp off 0"
  "launch_workers 2 labels ia cp off ! Suc 0 = SplitCountingWorker labels ia cp off 1"
  "set (launch_workers 2 labels ia cp off) =
     {SplitCountingWorker labels ia cp off 0, SplitCountingWorker labels ia cp off 1}"
  by (simp_all add: launch_workers_def numeral_2_eq_2 upt_rec insert_commute)




end
